theory Spec2Isabelle
  imports Main "HOL-Library.Sublist"
begin

section \<open>Data model\<close>

text \<open>
  The two builtin plugins, \<^verbatim>\<open>PatchTransformer.go\<close> and
  \<^verbatim>\<open>PatchStrategicMergeTransformer.go\<close>, are glue around collaborators that live
  in other packages (the resource and resmap packages, the YAML codec, the JSON-Patch
  library, the kyaml filters). The embedding keeps the control flow of the two files as
  it is written and takes every collaborator as a field of the record \<open>env\<close>, so that
  each theorem holds for every behaviour of the collaborators unless a hypothesis says
  otherwise.
\<close>

text \<open>The generic field-tree of a resource: null, bool, number, string, ordered list,
  ordered map.\<close>

datatype tree =
    TNull
  | TBool bool
  | TNum int
  | TStr string
  | TList "tree list"
  | TMap "(string \<times> tree) list"

text \<open>\<^verbatim>\<open>resid.Gvk\<close>, \<^verbatim>\<open>resid.ResId\<close> and \<^verbatim>\<open>types.Selector\<close>.\<close>

record Gvk =
  Group :: string
  Version :: string
  Kind :: string

record ResId =
  ridGvk :: Gvk
  ridName :: string
  ridNamespace :: string

record Selector =
  selGvk :: Gvk
  selNamespace :: string
  selName :: string
  AnnotationSelector :: string
  LabelSelector :: string

text \<open>
  A resource: the identity it was loaded with (\<^verbatim>\<open>OrgId()\<close>), its current identity
  fields (\<^verbatim>\<open>GetGvk()\<close>, \<^verbatim>\<open>GetNamespace()\<close>, \<^verbatim>\<open>GetName()\<close>, together
  \<^verbatim>\<open>CurId()\<close>) and its field-tree (\<^verbatim>\<open>Map()\<close>).
\<close>

record resource =
  resOrgId :: ResId
  resGvk :: Gvk
  resNamespace :: string
  resName :: string
  resMap :: "(string \<times> tree) list"

text \<open>One RFC 6902 operation \<open>{op, path, from, value}\<close>; \<^verbatim>\<open>jsonpatch.Patch\<close> is a
  slice of them (\<open>None\<close> where the Go slice is \<^verbatim>\<open>nil\<close>).\<close>

record operation =
  opKind :: string
  opPath :: string
  opFrom :: string
  opValue :: "tree option"

type_synonym jsonpatch = "operation list"

text \<open>
  Go's \<^verbatim>\<open>error\<close> values. Each \<^verbatim>\<open>fmt.Errorf\<close> site of the two files is a
  constructor of its own, carrying what the message prints; \<open>FailedToApplyJsonPatch\<close> is
  the \<^verbatim>\<open>errors.Wrapf\<close> of \<^verbatim>\<open>applyJson6902Patch\<close>; \<open>LibError\<close> is any error made
  by a collaborator; the last three are made by the resource collection.
\<close>

datatype error =
    MustSpecifyOneOfPatchAndPath string
  | PatchAndPathBothSet string
  | QualifiesAsBothSMAndJSON string
  | UnableToParseSMOrJSON string
  | MustSpecifyTarget string
  | FailedToApplyJsonPatch error string
  | EmptyJsonPatchOperations
  | EmptyFilePathAndPatchContent
  | PatchAppearsEmpty "string list" string
  | LibError string
  | IdNotFound ResId
  | IdNotUnique ResId
  | IdNotFoundInRemoval ResId

text \<open>The state of the plugin of \<^verbatim>\<open>PatchTransformer.go\<close>.\<close>

record plugin =
  loadedPatch :: "resource option"
  decodedPatch :: "jsonpatch option"
  Path :: string
  Patch :: string
  Target :: "Selector option"
  YAMLSupport :: bool

text \<open>The state of the plugin of \<^verbatim>\<open>PatchStrategicMergeTransformer.go\<close> (its names carry
  the suffix \<open>_psm\<close> where they clash with the other plugin's). The field \<^verbatim>\<open>h\<close> is
  the \<open>env\<close> argument of the functions below.\<close>

record plugin_psm =
  loadedPatches :: "resource list"
  Paths :: "string list"
  Patches :: string
  YAMLSupport_psm :: bool

text \<open>
  The collaborators. A Go function returning \<^verbatim>\<open>(T, error)\<close> whose two results the
  caller inspects separately returns a pair here (\<open>FromBytes\<close>, \<open>DecodePatch\<close>); one
  whose value is only used after \<^verbatim>\<open>err == nil\<close> returns a sum (\<open>Inl\<close> the error).
  A method that mutates its receiver in place and returns an error returns the error and
  the receiver as it leaves it.

  \<^item> \<open>yaml_Unmarshal\<close>, \<open>yaml_Unmarshal_psm\<close>: \<^verbatim>\<open>yaml.Unmarshal(c, p)\<close> on either plugin;
  \<^item> \<open>TrimSpace\<close>: \<^verbatim>\<open>strings.TrimSpace\<close>;
  \<^item> \<open>Load\<close>: \<^verbatim>\<open>h.Loader().Load\<close>;
  \<^item> \<open>FromBytes\<close>, \<open>SliceFromBytes\<close>, \<open>SliceFromPatches\<close>: the methods of
    \<^verbatim>\<open>h.ResmapFactory().RF()\<close>; \<open>MergePatches\<close>: \<^verbatim>\<open>h.ResmapFactory().MergePatches\<close>
    (the resources of the collection it returns);
  \<^item> \<open>YAMLToJSON\<close>: \<^verbatim>\<open>yaml.YAMLToJSON\<close>; \<open>DecodePatch\<close>: \<^verbatim>\<open>jsonpatch.DecodePatch\<close>;
  \<^item> \<open>SelectorError\<close>, \<open>Matches\<close>: whether a selector is malformed, and whether it
    selects a resource;
  \<^item> \<open>resource_Patch\<close>: \<^verbatim>\<open>resource.Patch(patch)\<close>, the legacy strategic merge;
  \<^item> \<open>GetRNode\<close>, \<open>setRNode\<close>: \<^verbatim>\<open>filtersutil.GetRNode\<close> and the write-back of
    \<^verbatim>\<open>filtersutil.ApplyToJSON\<close>;
  \<^item> \<open>smp_Filter\<close>: \<^verbatim>\<open>patchstrategicmerge.Filter{Patch: node}\<close> on one node;
  \<^item> \<open>MarshalJSON\<close>, \<open>UnmarshalJSON\<close>: the methods of \<^verbatim>\<open>resource.Resource\<close>;
  \<^item> \<open>apply_op\<close>: one RFC 6902 operation on a document;
  \<^item> \<open>Filter_decodePatch\<close>: how \<^verbatim>\<open>patchjson6902.Filter\<close> decodes its \<^verbatim>\<open>Patch\<close> text.
\<close>

record env =
  yaml_Unmarshal :: "string \<Rightarrow> plugin \<Rightarrow> plugin \<times> error option"
  yaml_Unmarshal_psm :: "string \<Rightarrow> plugin_psm \<Rightarrow> plugin_psm \<times> error option"
  TrimSpace :: "string \<Rightarrow> string"
  Load :: "string \<Rightarrow> error + string"
  FromBytes :: "string \<Rightarrow> resource option \<times> error option"
  SliceFromBytes :: "string \<Rightarrow> error + resource list"
  SliceFromPatches :: "string list \<Rightarrow> error + resource list"
  MergePatches :: "resource list \<Rightarrow> error + resource list"
  YAMLToJSON :: "string \<Rightarrow> error + string"
  DecodePatch :: "string \<Rightarrow> jsonpatch option \<times> error option"
  SelectorError :: "Selector \<Rightarrow> error option"
  Matches :: "Selector \<Rightarrow> resource \<Rightarrow> bool"
  resource_Patch :: "resource \<Rightarrow> resource \<Rightarrow> error option \<times> resource"
  GetRNode :: "resource \<Rightarrow> error + tree"
  setRNode :: "resource \<Rightarrow> tree \<Rightarrow> error option \<times> resource"
  smp_Filter :: "tree \<Rightarrow> tree \<Rightarrow> error + tree"
  MarshalJSON :: "resource \<Rightarrow> error + tree"
  UnmarshalJSON :: "resource \<Rightarrow> tree \<Rightarrow> error option \<times> resource"
  apply_op :: "operation \<Rightarrow> tree \<Rightarrow> error + tree"
  Filter_decodePatch :: "string \<Rightarrow> error + jsonpatch"

section \<open>Patch loading: PatchTransformer.go, Config\<close>

text \<open>\<^verbatim>\<open>strings.Contains(s, substr)\<close>: \<open>substr\<close> occurs in \<open>s\<close> as a contiguous run of
  bytes.\<close>

fun Contains :: "string \<Rightarrow> string \<Rightarrow> bool" where
  "Contains [] substr = (substr = [])"
| "Contains (c # s) substr = (prefix substr (c # s) \<or> Contains s substr)"

text \<open>\<^verbatim>\<open>jsonPatchFromBytes\<close> (lines 183-198).\<close>

definition jsonPatchFromBytes :: "env \<Rightarrow> string \<Rightarrow> jsonpatch option \<times> error option" where
  "jsonPatchFromBytes h inp =
     (case inp of
        [] \<Rightarrow> (None, Some EmptyJsonPatchOperations)
      | c # _ \<Rightarrow>
          if c \<noteq> CHR ''[''
          then (case YAMLToJSON h inp of
                  Inl err \<Rightarrow> (None, Some err)
                | Inr jsonOps \<Rightarrow> DecodePatch h jsonOps)
          else DecodePatch h inp)"

text \<open>
  \<^verbatim>\<open>Config\<close>, lines 37-62: decode the configuration into the plugin, default
  \<^verbatim>\<open>YAMLSupport\<close>, trim the inline patch, check that exactly one of \<^verbatim>\<open>patch\<close> and
  \<^verbatim>\<open>path\<close> is set, and load the content a \<^verbatim>\<open>path\<close> refers to into \<^verbatim>\<open>p.Patch\<close>.
  The plugin is mutated in place, so it is returned in the state the function leaves it,
  also beside an error.
\<close>

definition Config_input :: "env \<Rightarrow> string \<Rightarrow> plugin \<Rightarrow> error option \<times> plugin" where
  "Config_input h c p =
     (case yaml_Unmarshal h c p of
        (p1, Some err) \<Rightarrow> (Some err, p1)
      | (p1, None) \<Rightarrow>
          let p2 = (if \<not> Contains c ''yamlSupport'' then p1\<lparr>YAMLSupport := True\<rparr> else p1);
              p3 = p2\<lparr>Patch := TrimSpace h (Patch p2)\<rparr>
          in if Patch p3 = [] \<and> Path p3 = [] then (Some (MustSpecifyOneOfPatchAndPath c), p3)
             else if Patch p3 \<noteq> [] \<and> Path p3 \<noteq> [] then (Some (PatchAndPathBothSet c), p3)
             else if Path p3 \<noteq> []
                  then (case Load h (Path p3) of
                          Inl loadErr \<Rightarrow> (Some loadErr, p3)
                        | Inr loaded \<Rightarrow> (None, p3\<lparr>Patch := loaded\<rparr>))
                  else (None, p3))"

text \<open>
  \<^verbatim>\<open>Config\<close>, lines 64-81: parse \<^verbatim>\<open>p.Patch\<close> both ways and keep the one patch that
  parsed.
\<close>

definition Config_classify :: "env \<Rightarrow> plugin \<Rightarrow> error option \<times> plugin" where
  "Config_classify h p =
     (case FromBytes h (Patch p) of (patchSM, errSM) \<Rightarrow>
      case jsonPatchFromBytes h (Patch p) of (patchJson, errJson) \<Rightarrow>
        if (errSM = None \<and> errJson = None) \<or> (patchSM \<noteq> None \<and> patchJson \<noteq> None)
        then (Some (QualifiesAsBothSMAndJSON (Patch p)), p)
        else if errSM \<noteq> None \<and> errJson \<noteq> None
        then (Some (UnableToParseSMOrJSON (Patch p)), p)
        else if errSM = None
        then (None, p\<lparr>loadedPatch := patchSM\<rparr>)
        else (None, p\<lparr>decodedPatch := patchJson\<rparr>))"

text \<open>\<^verbatim>\<open>Config\<close> (lines 35-82).\<close>

definition Config :: "env \<Rightarrow> string \<Rightarrow> plugin \<Rightarrow> error option \<times> plugin" where
  "Config h c p =
     (case Config_input h c p of
        (Some err, p') \<Rightarrow> (Some err, p')
      | (None, p') \<Rightarrow> Config_classify h p')"

section \<open>Patch loading: PatchStrategicMergeTransformer.go, Config\<close>

text \<open>
  The loop over \<^verbatim>\<open>p.Paths\<close> (lines 47-59): each entry is first read as literal patch
  content and, when that fails, as a reference to a patch file. The second argument is
  \<^verbatim>\<open>p.loadedPatches\<close>, returned as the loop leaves it.
\<close>

fun Config_psm_paths :: "env \<Rightarrow> string list \<Rightarrow> resource list \<Rightarrow> error option \<times> resource list" where
  "Config_psm_paths h [] loaded = (None, loaded)"
| "Config_psm_paths h (onePath # rest) loaded =
     (case SliceFromBytes h onePath of
        Inr res \<Rightarrow> Config_psm_paths h rest (loaded @ res)
      | Inl _ \<Rightarrow>
          (case SliceFromPatches h [onePath] of
             Inl err \<Rightarrow> (Some err, loaded)
           | Inr res \<Rightarrow> Config_psm_paths h rest (loaded @ res)))"

text \<open>\<^verbatim>\<open>Config\<close> of PatchStrategicMergeTransformer.go (lines 31-74). The final
  \<^verbatim>\<open>return err\<close> returns the named result, which is \<^verbatim>\<open>nil\<close> there.\<close>

definition Config_psm :: "env \<Rightarrow> string \<Rightarrow> plugin_psm \<Rightarrow> error option \<times> plugin_psm" where
  "Config_psm h c p =
     (case yaml_Unmarshal_psm h c p of
        (p1, Some err) \<Rightarrow> (Some err, p1)
      | (p1, None) \<Rightarrow>
          let p2 = (if \<not> Contains c ''yamlSupport'' then p1\<lparr>YAMLSupport_psm := True\<rparr> else p1)
          in if length (Paths p2) = 0 \<and> Patches p2 = [] then (Some EmptyFilePathAndPatchContent, p2)
             else
               (case (if length (Paths p2) \<noteq> 0
                      then Config_psm_paths h (Paths p2) (loadedPatches p2)
                      else (None, loadedPatches p2)) of
                  (Some err, loaded) \<Rightarrow> (Some err, p2\<lparr>loadedPatches := loaded\<rparr>)
                | (None, loaded) \<Rightarrow>
                    let p3 = p2\<lparr>loadedPatches := loaded\<rparr>
                    in (case (if Patches p3 \<noteq> []
                              then (case SliceFromBytes h (Patches p3) of
                                      Inl err \<Rightarrow> Inl err
                                    | Inr res \<Rightarrow> Inr (p3\<lparr>loadedPatches := loadedPatches p3 @ res\<rparr>))
                              else Inr p3) of
                          Inl err \<Rightarrow> (Some err, p3)
                        | Inr p4 \<Rightarrow>
                            if length (loadedPatches p4) = 0
                            then (Some (PatchAppearsEmpty (Paths p4) (Patches p4)), p4)
                            else (None, p4))))"

section \<open>Resources and the resource collection\<close>

text \<open>
  The package \<^verbatim>\<open>api/resource\<close> is not among the sources. Section 3 of the specification
  says that a resource is identified by group, version, kind, namespace and name, holds a
  field-tree, and supports deep copy and identity field mutation; the accessors the two
  plugins call are modelled from that.
\<close>

text \<open>Modelled from the spec: \<^verbatim>\<open>Resource.OrgId\<close>, the identity the resource was loaded
  with.\<close>

definition OrgId :: "resource \<Rightarrow> ResId" where
  "OrgId r = resOrgId r"

text \<open>Modelled from the spec: \<^verbatim>\<open>Resource.CurId\<close>, the identity made of the current
  group/version/kind, name and namespace.\<close>

definition CurId :: "resource \<Rightarrow> ResId" where
  "CurId r = \<lparr>ridGvk = resGvk r, ridName = resName r, ridNamespace = resNamespace r\<rparr>"

text \<open>Modelled from the spec: \<^verbatim>\<open>Resource.GetName\<close>.\<close>

definition GetName :: "resource \<Rightarrow> string" where
  "GetName r = resName r"

text \<open>Modelled from the spec: \<^verbatim>\<open>Resource.GetNamespace\<close>.\<close>

definition GetNamespace :: "resource \<Rightarrow> string" where
  "GetNamespace r = resNamespace r"

text \<open>Modelled from the spec: \<^verbatim>\<open>Resource.GetGvk\<close>.\<close>

definition GetGvk :: "resource \<Rightarrow> Gvk" where
  "GetGvk r = resGvk r"

text \<open>Modelled from the spec: \<^verbatim>\<open>Resource.SetName\<close>, identity field mutation.\<close>

definition SetName :: "string \<Rightarrow> resource \<Rightarrow> resource" where
  "SetName n r = r\<lparr>resName := n\<rparr>"

text \<open>Modelled from the spec: \<^verbatim>\<open>Resource.SetNamespace\<close>, identity field mutation.\<close>

definition SetNamespace :: "string \<Rightarrow> resource \<Rightarrow> resource" where
  "SetNamespace ns r = r\<lparr>resNamespace := ns\<rparr>"

text \<open>Modelled from the spec: \<^verbatim>\<open>Resource.SetGvk\<close>, identity field mutation.\<close>

definition SetGvk :: "Gvk \<Rightarrow> resource \<Rightarrow> resource" where
  "SetGvk g r = r\<lparr>resGvk := g\<rparr>"

text \<open>Modelled from the spec: \<^verbatim>\<open>Resource.Map\<close>, the top level of the field-tree (named
  \<open>GetMap\<close> here).\<close>

definition GetMap :: "resource \<Rightarrow> (string \<times> tree) list" where
  "GetMap r = resMap r"

text \<open>Modelled from the spec: \<^verbatim>\<open>Resource.DeepCopy\<close>; a copy of a value is the value.\<close>

definition DeepCopy :: "resource \<Rightarrow> resource" where
  "DeepCopy r = r"

text \<open>Modelled from the spec: \<^verbatim>\<open>Resource.Copy\<close>; a copy of a value is the value.\<close>

definition Copy :: "resource \<Rightarrow> resource" where
  "Copy r = r"

text \<open>
  A resource collection (\<^verbatim>\<open>resmap.ResMap\<close>) is the list of its resources, in order. The
  Go collection holds pointers and the plugins mutate a resource through the pointer a
  lookup returned; here a lookup returns the position of the resource in the list and the
  mutation is the list update at that position.
\<close>

type_synonym ResMap = "resource list"

text \<open>Modelled from the spec: \<^verbatim>\<open>ResMap.GetById\<close> (package \<^verbatim>\<open>api/resmap\<close>, not among the
  sources), section 4.3: exact lookup by identity; zero matches is a not-found error and
  the lookup must yield exactly one match. The plugins pass the patch's \<^verbatim>\<open>OrgId()\<close>,
  which is compared with the \<^verbatim>\<open>OrgId()\<close> of the resources.\<close>

definition GetById :: "ResId \<Rightarrow> ResMap \<Rightarrow> error + nat" where
  "GetById rid m =
     (case filter (\<lambda>i. OrgId (m ! i) = rid) [0..<length m] of
        [] \<Rightarrow> Inl (IdNotFound rid)
      | [i] \<Rightarrow> Inr i
      | _ \<Rightarrow> Inl (IdNotUnique rid))"

text \<open>Modelled from the spec: \<^verbatim>\<open>ResMap.Select\<close> (package \<^verbatim>\<open>api/resmap\<close>, not among the
  sources), section 4.3: every resource that satisfies the selector, in collection order.
  What satisfying a selector means, and which selectors are malformed, is left to the
  collaborators \<open>Matches\<close> and \<open>SelectorError\<close>.\<close>

definition Select :: "env \<Rightarrow> Selector \<Rightarrow> ResMap \<Rightarrow> error + nat list" where
  "Select h s m =
     (case SelectorError h s of
        Some err \<Rightarrow> Inl err
      | None \<Rightarrow> Inr (filter (\<lambda>i. Matches h s (m ! i)) [0..<length m]))"

text \<open>Modelled from the spec: \<^verbatim>\<open>ResMap.Remove\<close> (package \<^verbatim>\<open>api/resmap\<close>, not among the
  sources), sections 3 and 4.5: removal of the resource with the given current identity;
  it fails unless the collection shrinks by exactly one.\<close>

definition Remove :: "ResId \<Rightarrow> ResMap \<Rightarrow> error + ResMap" where
  "Remove adios m =
     (let tmp = filter (\<lambda>r. CurId r \<noteq> adios) m
      in if int (length tmp) \<noteq> int (length m) - 1 then Inl (IdNotFoundInRemoval adios)
         else Inr tmp)"

section \<open>Patch application\<close>

text \<open>Modelled from the spec: \<^verbatim>\<open>filtersutil.ApplyToJSON\<close> (package \<^verbatim>\<open>kyaml/filtersutil\<close>,
  not among the sources), section 4.4: serialize the resource to its field-tree, run the
  filter on the tree, and on success write the resulting tree back into the resource in
  place; a failure leaves the resource unmodified.\<close>

definition ApplyToJSON :: "env \<Rightarrow> (tree \<Rightarrow> error + tree) \<Rightarrow> resource \<Rightarrow> error option \<times> resource" where
  "ApplyToJSON h filt obj =
     (case GetRNode h obj of
        Inl err \<Rightarrow> (Some err, obj)
      | Inr node \<Rightarrow>
          (case filt node of
             Inl err \<Rightarrow> (Some err, obj)
           | Inr node' \<Rightarrow> setRNode h obj node'))"

text \<open>Modelled from the spec: \<^verbatim>\<open>jsonpatch.Patch.Apply\<close> (the JSON-Patch library, not among
  the sources), section 4.4: the operations are applied in sequence, each to the document
  the previous one produced, and the first one that fails aborts the application. What one
  operation does to a document is the collaborator \<open>apply_op\<close>.\<close>

fun jsonpatch_Apply :: "env \<Rightarrow> jsonpatch \<Rightarrow> tree \<Rightarrow> error + tree" where
  "jsonpatch_Apply h [] doc = Inr doc"
| "jsonpatch_Apply h (x # ops) doc =
     (case apply_op h x doc of
        Inl err \<Rightarrow> Inl err
      | Inr doc' \<Rightarrow> jsonpatch_Apply h ops doc')"

text \<open>Modelled from the spec: \<^verbatim>\<open>patchjson6902.Filter{Patch: text}\<close> on one node (package
  \<^verbatim>\<open>api/filters/patchjson6902\<close>, not among the sources), section 4.4: the filter decodes
  its patch text into an operation sequence and applies it as above.\<close>

definition patchjson6902_Filter :: "env \<Rightarrow> string \<Rightarrow> tree \<Rightarrow> error + tree" where
  "patchjson6902_Filter h patchText node =
     (case Filter_decodePatch h patchText of
        Inl err \<Rightarrow> Inl err
      | Inr ops \<Rightarrow> jsonpatch_Apply h ops node)"

text \<open>\<^verbatim>\<open>applySMPatch\<close> (PatchTransformer.go, lines 125-137).\<close>

definition applySMPatch :: "env \<Rightarrow> plugin \<Rightarrow> resource \<Rightarrow> resource \<Rightarrow> error option \<times> resource" where
  "applySMPatch h p res patch =
     (if \<not> YAMLSupport p then resource_Patch h res (Copy patch)
      else (case GetRNode h patch of
              Inl err \<Rightarrow> (Some err, res)
            | Inr node \<Rightarrow> ApplyToJSON h (smp_Filter h node) res))"

text \<open>\<^verbatim>\<open>applyJson6902Patch\<close> (PatchTransformer.go, lines 162-179). A \<^verbatim>\<open>nil\<close> patch has no
  operations.\<close>

definition applyJson6902Patch :: "env \<Rightarrow> plugin \<Rightarrow> resource \<Rightarrow> jsonpatch option \<Rightarrow> error option \<times> resource" where
  "applyJson6902Patch h p res patch =
     (if \<not> YAMLSupport p
      then (case MarshalJSON h res of
              Inl err \<Rightarrow> (Some err, res)
            | Inr rawObj \<Rightarrow>
                (case jsonpatch_Apply h (case patch of None \<Rightarrow> [] | Some ops \<Rightarrow> ops) rawObj of
                   Inl err \<Rightarrow> (Some (FailedToApplyJsonPatch err (Patch p)), res)
                 | Inr modifiedObj \<Rightarrow> UnmarshalJSON h res modifiedObj))
      else ApplyToJSON h (patchjson6902_Filter h (Patch p)) res)"

section \<open>Transformation: PatchTransformer.go\<close>

text \<open>The loop of \<^verbatim>\<open>transformStrategicMerge\<close> (lines 109-118) over the selected
  resources. The collection is returned as the loop leaves it, also beside an error.\<close>

fun transformStrategicMerge_loop :: "env \<Rightarrow> plugin \<Rightarrow> resource \<Rightarrow> nat list \<Rightarrow> ResMap \<Rightarrow> error option \<times> ResMap" where
  "transformStrategicMerge_loop h p patch [] m = (None, m)"
| "transformStrategicMerge_loop h p patch (i # resources) m =
     (let res = m ! i;
          patchCopy = DeepCopy patch;
          patchCopy = SetName (GetName res) patchCopy;
          patchCopy = SetNamespace (GetNamespace res) patchCopy;
          patchCopy = SetGvk (GetGvk res) patchCopy
      in case applySMPatch h p res patchCopy of
           (Some err, res') \<Rightarrow> (Some err, m[i := res'])
         | (None, res') \<Rightarrow> transformStrategicMerge_loop h p patch resources (m[i := res']))"

text \<open>\<^verbatim>\<open>transformStrategicMerge\<close> (lines 96-120).\<close>

definition transformStrategicMerge :: "env \<Rightarrow> plugin \<Rightarrow> ResMap \<Rightarrow> resource \<Rightarrow> error option \<times> ResMap" where
  "transformStrategicMerge h p m patch =
     (case Target p of
        None \<Rightarrow>
          (case GetById (OrgId patch) m of
             Inl err \<Rightarrow> (Some err, m)
           | Inr i \<Rightarrow>
               (case applySMPatch h p (m ! i) patch of
                  (err, target') \<Rightarrow> (err, m[i := target'])))
      | Some sel \<Rightarrow>
          (case Select h sel m of
             Inl err \<Rightarrow> (Some err, m)
           | Inr resources \<Rightarrow> transformStrategicMerge_loop h p patch resources m))"

text \<open>The loop of \<^verbatim>\<open>transformJson6902\<close> (lines 150-155).\<close>

fun transformJson6902_loop :: "env \<Rightarrow> plugin \<Rightarrow> jsonpatch option \<Rightarrow> nat list \<Rightarrow> ResMap \<Rightarrow> error option \<times> ResMap" where
  "transformJson6902_loop h p patch [] m = (None, m)"
| "transformJson6902_loop h p patch (i # resources) m =
     (case applyJson6902Patch h p (m ! i) patch of
        (Some err, res') \<Rightarrow> (Some err, m[i := res'])
      | (None, res') \<Rightarrow> transformJson6902_loop h p patch resources (m[i := res']))"

text \<open>\<^verbatim>\<open>transformJson6902\<close> (lines 141-157).\<close>

definition transformJson6902 :: "env \<Rightarrow> plugin \<Rightarrow> ResMap \<Rightarrow> jsonpatch option \<Rightarrow> error option \<times> ResMap" where
  "transformJson6902 h p m patch =
     (case Target p of
        None \<Rightarrow> (Some (MustSpecifyTarget (Patch p)), m)
      | Some sel \<Rightarrow>
          (case Select h sel m of
             Inl err \<Rightarrow> (Some err, m)
           | Inr resources \<Rightarrow> transformJson6902_loop h p patch resources m))"

text \<open>\<^verbatim>\<open>Transform\<close> (lines 84-91).\<close>

definition Transform :: "env \<Rightarrow> plugin \<Rightarrow> ResMap \<Rightarrow> error option \<times> ResMap" where
  "Transform h p m =
     (case loadedPatch p of
        Some patch \<Rightarrow> transformStrategicMerge h p m patch
      | None \<Rightarrow> transformJson6902 h p m (decodedPatch p))"

section \<open>Transformation: PatchStrategicMergeTransformer.go\<close>

text \<open>
  The loop of \<^verbatim>\<open>Transform\<close> (lines 81-114). In the \<^verbatim>\<open>else\<close> branch the source declares
  \<^verbatim>\<open>node, err := filtersutil.GetRNode(patchCopy)\<close>: this \<^verbatim>\<open>err\<close> is a new variable of
  the inner block, and the error of \<^verbatim>\<open>filtersutil.ApplyToJSON\<close> is assigned to it. The
  test \<^verbatim>\<open>if err != nil\<close> after the block reads the outer \<^verbatim>\<open>err\<close>, which is \<^verbatim>\<open>nil\<close>
  there, so the error of \<^verbatim>\<open>ApplyToJSON\<close> is not returned.
\<close>

fun Transform_psm_loop :: "env \<Rightarrow> plugin_psm \<Rightarrow> resource list \<Rightarrow> ResMap \<Rightarrow> error option \<times> ResMap" where
  "Transform_psm_loop h p [] m = (None, m)"
| "Transform_psm_loop h p (patch # patches) m =
     (case GetById (OrgId patch) m of
        Inl err \<Rightarrow> (Some err, m)
      | Inr i \<Rightarrow>
          (let target = m ! i
           in case (if \<not> YAMLSupport_psm p
                   then Inr (resource_Patch h target (Copy patch))
                   else
                     (let patchCopy = DeepCopy patch;
                          patchCopy = SetName (GetName target) patchCopy;
                          patchCopy = SetNamespace (GetNamespace target) patchCopy;
                          patchCopy = SetGvk (GetGvk target) patchCopy
                      in case GetRNode h patchCopy of
                           Inl err \<Rightarrow> Inl err
                         | Inr node \<Rightarrow>
                             Inr (None, snd (ApplyToJSON h (smp_Filter h node) target)))) of
               Inl err \<Rightarrow> (Some err, m)
             | Inr (Some err, target') \<Rightarrow> (Some err, m[i := target'])
             | Inr (None, target') \<Rightarrow>
                 let m' = m[i := target']
                 in if length (GetMap target') = 0
                    then (case Remove (CurId target') m' of
                            Inl err \<Rightarrow> (Some err, m')
                          | Inr m'' \<Rightarrow> Transform_psm_loop h p patches m'')
                    else Transform_psm_loop h p patches m'))"

text \<open>\<^verbatim>\<open>Transform\<close> of PatchStrategicMergeTransformer.go (lines 76-116).\<close>

definition Transform_psm :: "env \<Rightarrow> plugin_psm \<Rightarrow> ResMap \<Rightarrow> error option \<times> ResMap" where
  "Transform_psm h p m =
     (case MergePatches h (loadedPatches p) of
        Inl err \<Rightarrow> (Some err, m)
      | Inr patches \<Rightarrow> Transform_psm_loop h p patches m)"

section \<open>A concrete configuration\<close>

text \<open>
  Small stand-ins for the collaborators, used to run the functions above on concrete
  inputs. The decoder reads \<open>patch: \<close> and \<open>path: \<close> lines; the loader knows one file;
  one text parses as a resource, one as an operation array, and \<open>ambiguous\<close> as both;
  a selector selects the resources whose name starts with its name; merging puts the
  fields of the patch before the fields of the target it does not mention, and the delete
  directive alone empties the target; an operation removes or adds a top-level field.
\<close>

definition ex_gvk :: Gvk where
  "ex_gvk = \<lparr>Group = ''apps'', Version = ''v1'', Kind = ''Deployment''\<rparr>"

definition ex_resource :: "string \<Rightarrow> (string \<times> tree) list \<Rightarrow> resource" where
  "ex_resource n kvs =
     \<lparr>resOrgId = \<lparr>ridGvk = ex_gvk, ridName = n, ridNamespace = ''default''\<rparr>,
      resGvk = ex_gvk, resNamespace = ''default'', resName = n, resMap = kvs\<rparr>"

definition ex_resmap :: ResMap where
  "ex_resmap =
     [ex_resource ''d1'' [(''replicas'', TNum 1)],
      ex_resource ''d2'' [(''replicas'', TNum 2)],
      ex_resource ''web'' [(''replicas'', TNum 3)]]"

definition ex_patch :: resource where
  "ex_patch = ex_resource ''d1'' [(''replicas'', TNum 5)]"

definition ex_delete_patch :: resource where
  "ex_delete_patch = ex_resource ''d1'' [(''$patch'', TStr ''delete'')]"

definition ex_ops :: jsonpatch where
  "ex_ops =
     [\<lparr>opKind = ''add'', opPath = ''/tier'', opFrom = [], opValue = Some (TStr ''web'')\<rparr>,
      \<lparr>opKind = ''remove'', opPath = ''/missing'', opFrom = [], opValue = None\<rparr>]"

definition ex_space :: "char \<Rightarrow> bool" where
  "ex_space c = (c \<in> set [CHR 0x09, CHR 0x0A, CHR 0x0B, CHR 0x0C, CHR 0x0D, CHR '' ''])"

definition ex_merge :: "(string \<times> tree) list \<Rightarrow> (string \<times> tree) list \<Rightarrow> (string \<times> tree) list" where
  "ex_merge target patch =
     (if patch = [(''$patch'', TStr ''delete'')] then []
      else patch @ filter (\<lambda>kv. fst kv \<notin> fst ` set patch) target)"

definition ex_write :: "resource \<Rightarrow> tree \<Rightarrow> error option \<times> resource" where
  "ex_write r node =
     (case node of
        TMap kvs \<Rightarrow> (None, r\<lparr>resMap := kvs\<rparr>)
      | _ \<Rightarrow> (Some (LibError ''not a map''), r))"

definition ex_apply_op :: "operation \<Rightarrow> tree \<Rightarrow> error + tree" where
  "ex_apply_op x doc =
     (case doc of
        TMap kvs \<Rightarrow>
          if opKind x = ''remove''
          then (if drop 1 (opPath x) \<in> fst ` set kvs
                then Inr (TMap (filter (\<lambda>kv. fst kv \<noteq> drop 1 (opPath x)) kvs))
                else Inl (LibError ''missing path''))
          else if opKind x = ''add''
          then (case opValue x of
                  Some v \<Rightarrow> Inr (TMap (kvs @ [(drop 1 (opPath x), v)]))
                | None \<Rightarrow> Inl (LibError ''missing value''))
          else Inl (LibError ''unsupported operation'')
      | _ \<Rightarrow> Inl (LibError ''not a map''))"

definition ex_env :: env where
  "ex_env =
     \<lparr>yaml_Unmarshal = (\<lambda>c p.
        if prefix ''patch: '' c then (p\<lparr>Patch := drop 7 c\<rparr>, None)
        else if prefix ''path: '' c then (p\<lparr>Path := drop 6 c\<rparr>, None)
        else if c = ''patch+path'' then (p\<lparr>Patch := ''kind: Deployment'', Path := ''ops.yaml''\<rparr>, None)
        else if c = ''{}'' then (p, None)
        else (p, Some (LibError ''yaml''))),
      yaml_Unmarshal_psm = (\<lambda>c p.
        if prefix ''patches: '' c then (p\<lparr>Patches := drop 9 c\<rparr>, None)
        else (p, Some (LibError ''yaml''))),
      TrimSpace = (\<lambda>s. rev (dropWhile ex_space (rev (dropWhile ex_space s)))),
      Load = (\<lambda>path.
        if path = ''ops.yaml'' then Inr ''- {op: remove, path: /replicas}''
        else Inl (LibError ''no such file'')),
      FromBytes = (\<lambda>s.
        if s = ''kind: Deployment'' \<or> s = ''ambiguous'' then (Some ex_patch, None)
        else (None, Some (LibError ''not a resource''))),
      SliceFromBytes = (\<lambda>s.
        if s = ''kind: Deployment'' then Inr [ex_patch]
        else if s = ''$patch: delete'' then Inr [ex_delete_patch]
        else Inl (LibError ''not a resource'')),
      SliceFromPatches = (\<lambda>ps. Inl (LibError ''no such file'')),
      MergePatches = (\<lambda>ps. Inr ps),
      YAMLToJSON = (\<lambda>s.
        if s = ''- {op: remove, path: /replicas}'' then Inr ''[{op: remove, path: /replicas}]''
        else Inr s),
      DecodePatch = (\<lambda>s.
        if s = ''[{op: remove, path: /replicas}]'' \<or> s = ''ambiguous''
        then (Some [\<lparr>opKind = ''remove'', opPath = ''/replicas'', opFrom = [], opValue = None\<rparr>], None)
        else (None, Some (LibError ''not an operation array''))),
      SelectorError = (\<lambda>s. None),
      Matches = (\<lambda>s r. prefix (selName s) (resName r)),
      resource_Patch = (\<lambda>target patch. (None, target\<lparr>resMap := ex_merge (resMap target) (resMap patch)\<rparr>)),
      GetRNode = (\<lambda>r. Inr (TMap (resMap r))),
      setRNode = ex_write,
      smp_Filter = (\<lambda>patchNode node.
        case (patchNode, node) of
          (TMap patch, TMap target) \<Rightarrow> Inr (TMap (ex_merge target patch))
        | _ \<Rightarrow> Inl (LibError ''not a map'')),
      MarshalJSON = (\<lambda>r. Inr (TMap (resMap r))),
      UnmarshalJSON = ex_write,
      apply_op = ex_apply_op,
      Filter_decodePatch = (\<lambda>s.
        if s = ''[add /tier, remove /missing]'' then Inr ex_ops
        else Inl (LibError ''not an operation array''))\<rparr>"

definition ex_plugin :: plugin where
  "ex_plugin =
     \<lparr>loadedPatch = None, decodedPatch = None, Path = [], Patch = [], Target = None,
      YAMLSupport = False\<rparr>"

definition ex_selector :: Selector where
  "ex_selector =
     \<lparr>selGvk = ex_gvk, selNamespace = [], selName = ''d'', AnnotationSelector = [],
      LabelSelector = []\<rparr>"

definition ex_plugin_psm :: plugin_psm where
  "ex_plugin_psm =
     \<lparr>loadedPatches = [ex_delete_patch], Paths = [], Patches = ''$patch: delete'',
      YAMLSupport_psm = False\<rparr>"

section \<open>Facts about the helpers\<close>

lemma Contains_iff_sublist: "Contains s substr \<longleftrightarrow> sublist substr s"
  by (induction s) (auto simp: sublist_Cons_right)

lemma Contains_iff: "Contains s substr \<longleftrightarrow> (\<exists>pre post. s = pre @ substr @ post)"
  by (simp add: Contains_iff_sublist sublist_def)

lemmas accessors = OrgId_def CurId_def GetName_def GetNamespace_def GetGvk_def SetName_def
  SetNamespace_def SetGvk_def GetMap_def DeepCopy_def Copy_def

lemma jsonPatchFromBytes_nil_on_error:
  assumes "\<And>s. snd (DecodePatch h s) \<noteq> None \<Longrightarrow> fst (DecodePatch h s) = None"
    and "snd (jsonPatchFromBytes h inp) \<noteq> None"
  shows "fst (jsonPatchFromBytes h inp) = None"
  using assms by (auto simp: jsonPatchFromBytes_def split: list.splits if_splits sum.splits)

lemma Config_classify_YAMLSupport: "YAMLSupport (snd (Config_classify h p)) = YAMLSupport p"
  by (simp add: Config_classify_def split: prod.splits)

lemma Config_input_YAMLSupport:
  "yaml_Unmarshal h c p = (p1, None) \<Longrightarrow>
   YAMLSupport (snd (Config_input h c p)) = (YAMLSupport p1 \<or> \<not> Contains c ''yamlSupport'')"
  by (simp add: Config_input_def Let_def split: sum.splits)

lemma Config_psm_YAMLSupport:
  "yaml_Unmarshal_psm h c q = (q1, None) \<Longrightarrow>
   YAMLSupport_psm (snd (Config_psm h c q)) = (YAMLSupport_psm q1 \<or> \<not> Contains c ''yamlSupport'')"
  by (simp add: Config_psm_def Let_def split: sum.splits prod.splits option.splits)

text \<open>The multi-patch plugin fails when the configuration gives neither a path nor inline
  patch content.\<close>

lemma Config_psm_requires_content:
  "yaml_Unmarshal_psm h c q = (q1, None) \<Longrightarrow> Paths q1 = [] \<Longrightarrow> Patches q1 = [] \<Longrightarrow>
   fst (Config_psm h c q) = Some EmptyFilePathAndPatchContent"
  by (simp add: Config_psm_def Let_def)

lemma Select_indices:
  "Select h s m = Inr resources \<Longrightarrow> distinct resources \<and> (\<forall>i\<in>set resources. i < length m)"
  by (auto simp: Select_def split: option.splits)

lemma GetById_index: "GetById rid m = Inr i \<Longrightarrow> i < length m \<and> OrgId (m ! i) = rid"
proof -
  assume g: "GetById rid m = Inr i"
  then have "filter (\<lambda>i. OrgId (m ! i) = rid) [0..<length m] = [i]"
    by (auto simp: GetById_def split: list.splits)
  then have "i \<in> set (filter (\<lambda>i. OrgId (m ! i) = rid) [0..<length m])"
    by simp
  then show ?thesis by simp
qed

lemma jsonpatch_Apply_fails:
  "jsonpatch_Apply h pre doc = Inr doc' \<Longrightarrow> apply_op h x doc' = Inl e \<Longrightarrow>
   jsonpatch_Apply h (pre @ x # post) doc = Inl e"
  by (induction pre arbitrary: doc) (auto split: sum.splits)

text \<open>What the loop of \<^verbatim>\<open>transformStrategicMerge\<close> leaves behind, whether it ends in an
  error or not: the collection keeps its length, a resource that was not selected is
  untouched, and a selected one is either untouched (the loop stopped before it) or the
  result of applying to it the patch with the resource's own name, namespace and
  group/version/kind.\<close>

lemma transformStrategicMerge_loop_result:
  "distinct resources \<Longrightarrow> \<forall>i\<in>set resources. i < length m \<Longrightarrow>
   transformStrategicMerge_loop h p patch resources m = (err, m') \<Longrightarrow>
   length m' = length m
   \<and> (\<forall>i<length m. i \<notin> set resources \<longrightarrow> m' ! i = m ! i)
   \<and> (\<forall>i\<in>set resources. m' ! i = m ! i \<or>
        (\<exists>e. applySMPatch h p (m ! i)
               (patch\<lparr>resName := resName (m ! i), resNamespace := resNamespace (m ! i),
                  resGvk := resGvk (m ! i)\<rparr>) = (e, m' ! i)))
   \<and> (err = None \<longrightarrow>
        (\<forall>i\<in>set resources. applySMPatch h p (m ! i)
               (patch\<lparr>resName := resName (m ! i), resNamespace := resNamespace (m ! i),
                  resGvk := resGvk (m ! i)\<rparr>) = (None, m' ! i)))"
proof (induction resources arbitrary: m)
  case Nil
  then show ?case by simp
next
  case (Cons i resources)
  let ?pc = "patch\<lparr>resName := resName (m ! i), resNamespace := resNamespace (m ! i),
                  resGvk := resGvk (m ! i)\<rparr>"
  obtain e r where ap: "applySMPatch h p (m ! i) ?pc = (e, r)"
    by (cases "applySMPatch h p (m ! i) ?pc")
  from Cons.prems have i: "i < length m" "i \<notin> set resources" "distinct resources"
    "\<forall>j\<in>set resources. j < length (m[i := r])"
    by auto
  show ?case
  proof (cases e)
    case (Some x)
    with Cons.prems(3) ap have "err = Some x" "m' = m[i := r]"
      by (simp_all add: accessors)
    with ap Some i show ?thesis
      by (auto simp: nth_list_update)
  next
    case None
    with Cons.prems(3) ap
    have loop: "transformStrategicMerge_loop h p patch resources (m[i := r]) = (err, m')"
      by (simp add: accessors)
    from Cons.IH[OF i(3) i(4) loop] have
      len: "length m' = length m"
      and frame: "\<forall>j<length m. j \<notin> set resources \<longrightarrow> m' ! j = m[i := r] ! j"
      and app: "\<forall>j\<in>set resources. m' ! j = m[i := r] ! j \<or>
        (\<exists>e. applySMPatch h p (m[i := r] ! j)
               (patch\<lparr>resName := resName (m[i := r] ! j),
                  resNamespace := resNamespace (m[i := r] ! j),
                  resGvk := resGvk (m[i := r] ! j)\<rparr>) = (e, m' ! j))"
      and ok: "err = None \<longrightarrow>
        (\<forall>j\<in>set resources. applySMPatch h p (m[i := r] ! j)
               (patch\<lparr>resName := resName (m[i := r] ! j),
                  resNamespace := resNamespace (m[i := r] ! j),
                  resGvk := resGvk (m[i := r] ! j)\<rparr>) = (None, m' ! j))"
      by simp_all
    have mi: "m' ! i = r"
      using frame i by simp
    have other: "\<And>j. j \<in> set resources \<Longrightarrow> m[i := r] ! j = m ! j"
      using i by (auto simp: nth_list_update)
    show ?thesis
      using len frame app ok mi other ap None i
      by (auto simp: nth_list_update)
  qed
qed

lemma transformStrategicMerge_loop_length:
  "length (snd (transformStrategicMerge_loop h p patch resources m)) = length m"
  by (induction resources arbitrary: m) (auto simp: Let_def split: prod.splits option.splits)

lemma transformJson6902_loop_length:
  "length (snd (transformJson6902_loop h p patch resources m)) = length m"
  by (induction resources arbitrary: m) (auto split: prod.splits option.splits)

lemmas ex_defs = ex_env_def ex_plugin_def ex_space_def ex_patch_def ex_resource_def ex_gvk_def
  ex_resmap_def ex_selector_def ex_ops_def ex_merge_def ex_write_def ex_apply_op_def
  ex_delete_patch_def ex_plugin_psm_def

section \<open>Patch classification\<close>

text \<open>
  C1. Once \<^verbatim>\<open>Config\<close> has its patch content in \<^verbatim>\<open>p.Patch\<close> (the input checks passed and a
  referenced file was loaded), the content is parsed as a strategic-merge resource and as a
  JSON-Patch operation array. Given that a parser which reports an error returns no patch
  beside it, \<^verbatim>\<open>Config\<close> fails with the "illegally qualifies as both" error when both
  parsers succeed, fails with the "unable to parse" error when both fail, and otherwise
  succeeds and stores exactly the patch that parsed: \<^verbatim>\<open>loadedPatch\<close> for a strategic-merge
  patch, \<^verbatim>\<open>decodedPatch\<close> for a JSON patch, the other field left as it was.
\<close>

theorem Config_classifies_patch:
  assumes "Config_input h c p = (None, p')"
    and "FromBytes h (Patch p') = (patchSM, errSM)"
    and "jsonPatchFromBytes h (Patch p') = (patchJson, errJson)"
    and "errSM \<noteq> None \<longrightarrow> patchSM = None"
    and "errJson \<noteq> None \<longrightarrow> patchJson = None"
  shows "Config h c p =
     (if errSM = None \<and> errJson = None then (Some (QualifiesAsBothSMAndJSON (Patch p')), p')
      else if errSM \<noteq> None \<and> errJson \<noteq> None then (Some (UnableToParseSMOrJSON (Patch p')), p')
      else if errSM = None then (None, p'\<lparr>loadedPatch := patchSM\<rparr>)
      else (None, p'\<lparr>decodedPatch := patchJson\<rparr>))"
  using assms by (auto simp: Config_def Config_classify_def)

theorem Config_classifies_patch_witness:
  "Config ex_env ''patch: kind: Deployment '' ex_plugin =
     (None, ex_plugin\<lparr>Patch := ''kind: Deployment'', YAMLSupport := True,
        loadedPatch := Some ex_patch\<rparr>)
   \<and> Config ex_env ''path: ops.yaml'' ex_plugin =
     (None, ex_plugin\<lparr>Path := ''ops.yaml'', Patch := ''- {op: remove, path: /replicas}'',
        YAMLSupport := True,
        decodedPatch := Some [\<lparr>opKind = ''remove'', opPath = ''/replicas'', opFrom = [],
          opValue = None\<rparr>]\<rparr>)
   \<and> Config ex_env ''patch: ambiguous'' ex_plugin =
     (Some (QualifiesAsBothSMAndJSON ''ambiguous''),
      ex_plugin\<lparr>Patch := ''ambiguous'', YAMLSupport := True\<rparr>)
   \<and> Config ex_env ''patch: ???'' ex_plugin =
     (Some (UnableToParseSMOrJSON ''???''), ex_plugin\<lparr>Patch := ''???'', YAMLSupport := True\<rparr>)"
  using
    Config_classifies_patch [of ex_env "''patch: kind: Deployment ''" ex_plugin
      "ex_plugin\<lparr>Patch := ''kind: Deployment'', YAMLSupport := True\<rparr>"
      "Some ex_patch" None None "Some (LibError ''not an operation array'')"]
    Config_classifies_patch [of ex_env "''path: ops.yaml''" ex_plugin
      "ex_plugin\<lparr>Path := ''ops.yaml'', Patch := ''- {op: remove, path: /replicas}'',
         YAMLSupport := True\<rparr>"
      None "Some (LibError ''not a resource'')"
      "Some [\<lparr>opKind = ''remove'', opPath = ''/replicas'', opFrom = [], opValue = None\<rparr>]" None]
    Config_classifies_patch [of ex_env "''patch: ambiguous''" ex_plugin
      "ex_plugin\<lparr>Patch := ''ambiguous'', YAMLSupport := True\<rparr>"
      "Some ex_patch" None
      "Some [\<lparr>opKind = ''remove'', opPath = ''/replicas'', opFrom = [], opValue = None\<rparr>]" None]
    Config_classifies_patch [of ex_env "''patch: ???''" ex_plugin
      "ex_plugin\<lparr>Patch := ''???'', YAMLSupport := True\<rparr>"
      None "Some (LibError ''not a resource'')" None "Some (LibError ''not an operation array'')"]
  by (simp add: Config_input_def jsonPatchFromBytes_def ex_env_def ex_plugin_def ex_space_def)

text \<open>
  C10. When the content is not empty and its first byte is not \<open>[\<close>,
  \<^verbatim>\<open>jsonPatchFromBytes\<close> converts it from YAML to JSON and decodes the converted text (so an
  operation array written in YAML is decoded as a JSON patch), returning the error of a
  failed conversion; when the first byte is \<open>[\<close> the content is decoded as it is; and empty
  content gives the "empty json patch operations" error, whatever the decoder would do.
\<close>

theorem jsonPatchFromBytes_converts_yaml:
  "(inp \<noteq> [] \<and> hd inp \<noteq> CHR ''['' \<longrightarrow>
      jsonPatchFromBytes h inp =
        (case YAMLToJSON h inp of
           Inl err \<Rightarrow> (None, Some err)
         | Inr jsonOps \<Rightarrow> DecodePatch h jsonOps))
   \<and> (inp \<noteq> [] \<and> hd inp = CHR ''['' \<longrightarrow> jsonPatchFromBytes h inp = DecodePatch h inp)
   \<and> jsonPatchFromBytes h [] = (None, Some EmptyJsonPatchOperations)"
  by (cases inp) (simp_all add: jsonPatchFromBytes_def)

theorem jsonPatchFromBytes_converts_yaml_witness:
  "jsonPatchFromBytes ex_env ''- {op: remove, path: /replicas}'' =
     (Some [\<lparr>opKind = ''remove'', opPath = ''/replicas'', opFrom = [], opValue = None\<rparr>], None)
   \<and> jsonPatchFromBytes ex_env ''[{op: remove, path: /replicas}]'' =
     (Some [\<lparr>opKind = ''remove'', opPath = ''/replicas'', opFrom = [], opValue = None\<rparr>], None)
   \<and> jsonPatchFromBytes ex_env [] = (None, Some EmptyJsonPatchOperations)"
  using
    jsonPatchFromBytes_converts_yaml [of "''- {op: remove, path: /replicas}''" ex_env]
    jsonPatchFromBytes_converts_yaml [of "''[{op: remove, path: /replicas}]''" ex_env]
  by (simp add: ex_env_def)

section \<open>Configuration checks\<close>

text \<open>
  C6. For the single-patch plugin, with the inline patch taken after
  \<^verbatim>\<open>strings.TrimSpace\<close>: \<^verbatim>\<open>Config\<close> fails with "must specify one of patch and path" when
  neither an inline patch nor a path is given, fails with "patch and path can't be set at
  the same time" when both are given, and when exactly one is given it goes on to load the
  referenced file (if it is the path) and to classify the content; so it succeeds only when
  exactly one is given.
\<close>

theorem Config_patch_xor_path:
  assumes "yaml_Unmarshal h c p = (p1, None)"
  shows "(TrimSpace h (Patch p1) = [] \<and> Path p1 = [] \<longrightarrow>
            fst (Config h c p) = Some (MustSpecifyOneOfPatchAndPath c))
       \<and> (TrimSpace h (Patch p1) \<noteq> [] \<and> Path p1 \<noteq> [] \<longrightarrow>
            fst (Config h c p) = Some (PatchAndPathBothSet c))
       \<and> ((TrimSpace h (Patch p1) = []) \<noteq> (Path p1 = []) \<longrightarrow>
            Config h c p =
              (let p3 = (if \<not> Contains c ''yamlSupport'' then p1\<lparr>YAMLSupport := True\<rparr> else p1)
                          \<lparr>Patch := TrimSpace h (Patch p1)\<rparr>
               in if Path p1 = [] then Config_classify h p3
                  else (case Load h (Path p1) of
                          Inl loadErr \<Rightarrow> (Some loadErr, p3)
                        | Inr loaded \<Rightarrow> Config_classify h (p3\<lparr>Patch := loaded\<rparr>))))
       \<and> (fst (Config h c p) = None \<longrightarrow> (TrimSpace h (Patch p1) = []) \<noteq> (Path p1 = []))"
  using assms
  by (auto simp: Config_def Config_input_def Let_def
      split: sum.splits prod.splits option.splits if_splits)

theorem Config_patch_xor_path_witness:
  "fst (Config ex_env ''{}'' ex_plugin) = Some (MustSpecifyOneOfPatchAndPath ''{}'')
   \<and> fst (Config ex_env ''patch+path'' ex_plugin) = Some (PatchAndPathBothSet ''patch+path'')
   \<and> fst (Config ex_env ''patch:    '' ex_plugin) = Some (MustSpecifyOneOfPatchAndPath ''patch:    '')"
  using
    Config_patch_xor_path [of ex_env "''{}''" ex_plugin ex_plugin]
    Config_patch_xor_path [of ex_env "''patch+path''" ex_plugin
      "ex_plugin\<lparr>Patch := ''kind: Deployment'', Path := ''ops.yaml''\<rparr>"]
    Config_patch_xor_path [of ex_env "''patch:    ''" ex_plugin "ex_plugin\<lparr>Patch := ''   ''\<rparr>"]
  by (simp add: ex_env_def ex_plugin_def ex_space_def)

text \<open>
  C9. In both plugins, when the configuration decodes, the strategy flag after \<^verbatim>\<open>Config\<close>
  (whether \<^verbatim>\<open>Config\<close> then succeeds or fails) is true exactly when the decoder set it to
  true or the raw configuration bytes do not contain \<open>yamlSupport\<close>. So a configuration
  that contains these bytes anywhere, for instance inside its patch text, keeps the legacy
  strategy unless it sets the flag to true.
\<close>

theorem YAMLSupport_default:
  "(yaml_Unmarshal h c p = (p1, None) \<longrightarrow>
      YAMLSupport (snd (Config h c p)) = (YAMLSupport p1 \<or> \<not> Contains c ''yamlSupport''))
   \<and> (yaml_Unmarshal_psm h c q = (q1, None) \<longrightarrow>
      YAMLSupport_psm (snd (Config_psm h c q)) =
        (YAMLSupport_psm q1 \<or> \<not> Contains c ''yamlSupport''))"
proof (intro conjI impI)
  assume u: "yaml_Unmarshal h c p = (p1, None)"
  show "YAMLSupport (snd (Config h c p)) = (YAMLSupport p1 \<or> \<not> Contains c ''yamlSupport'')"
  proof (cases "Config_input h c p")
    case (Pair e p')
    with Config_input_YAMLSupport[OF u]
    have y: "YAMLSupport p' = (YAMLSupport p1 \<or> \<not> Contains c ''yamlSupport'')"
      by simp
    show ?thesis
      using Pair y by (cases e) (simp_all add: Config_def Config_classify_YAMLSupport)
  qed
next
  assume "yaml_Unmarshal_psm h c q = (q1, None)"
  then show "YAMLSupport_psm (snd (Config_psm h c q)) =
      (YAMLSupport_psm q1 \<or> \<not> Contains c ''yamlSupport'')"
    by (rule Config_psm_YAMLSupport)
qed

theorem YAMLSupport_default_witness:
  "YAMLSupport (snd (Config ex_env ''patch: {note: yamlSupport}'' ex_plugin)) = False
   \<and> YAMLSupport (snd (Config ex_env ''patch: kind: Deployment'' ex_plugin)) = True
   \<and> YAMLSupport_psm (snd (Config_psm ex_env ''patches: $patch: delete'' ex_plugin_psm)) = True
   \<and> YAMLSupport_psm (snd (Config_psm ex_env ''patches: # yamlSupport'' ex_plugin_psm)) = False"
  using
    YAMLSupport_default [of ex_env "''patch: {note: yamlSupport}''" ex_plugin
      "ex_plugin\<lparr>Patch := ''{note: yamlSupport}''\<rparr>" ex_plugin_psm ex_plugin_psm]
    YAMLSupport_default [of ex_env "''patch: kind: Deployment''" ex_plugin
      "ex_plugin\<lparr>Patch := ''kind: Deployment''\<rparr>" ex_plugin_psm ex_plugin_psm]
    YAMLSupport_default [of ex_env "''patches: $patch: delete''" ex_plugin ex_plugin
      ex_plugin_psm "ex_plugin_psm\<lparr>Patches := ''$patch: delete''\<rparr>"]
    YAMLSupport_default [of ex_env "''patches: # yamlSupport''" ex_plugin ex_plugin
      ex_plugin_psm "ex_plugin_psm\<lparr>Patches := ''# yamlSupport''\<rparr>"]
  by (simp add: ex_env_def ex_plugin_def ex_plugin_psm_def)

section \<open>Removal of an emptied resource\<close>

text \<open>Removing the current identity of the resource at position \<open>i\<close> removes that resource
  and nothing else, when no other resource of the collection has this identity.\<close>

lemma Remove_emptied:
  assumes "i < length m"
    and "\<forall>j<length m. j \<noteq> i \<longrightarrow> CurId (m ! j) \<noteq> CurId t'"
  shows "Remove (CurId t') (m[i := t']) = Inr (take i m @ drop (Suc i) m)"
proof -
  have upd: "m[i := t'] = take i m @ t' # drop (Suc i) m"
    using assms(1) by (rule upd_conv_take_nth_drop)
  have "\<forall>r\<in>set (take i m). CurId r \<noteq> CurId t'"
    using assms by (auto simp: in_set_conv_nth)
  then have a: "filter (\<lambda>r. CurId r \<noteq> CurId t') (take i m) = take i m"
    by simp
  have "\<forall>r\<in>set (drop (Suc i) m). CurId r \<noteq> CurId t'"
    using assms by (auto simp: in_set_conv_nth)
  then have b: "filter (\<lambda>r. CurId r \<noteq> CurId t') (drop (Suc i) m) = drop (Suc i) m"
    by simp
  have f: "filter (\<lambda>r. CurId r \<noteq> CurId t') (m[i := t']) = take i m @ drop (Suc i) m"
    by (simp add: upd a b)
  have "int (length (take i m @ drop (Suc i) m)) = int (length (m[i := t'])) - 1"
    using assms(1) by auto
  with f show ?thesis
    by (simp add: Remove_def Let_def)
qed

text \<open>
  \<^verbatim>\<open>Transform\<close> of PatchStrategicMergeTransformer.go with one merged patch: when the patch
  leaves its target without fields, under either strategy, the target is removed, the
  collection shrinks by one and the other resources keep their place and content.
\<close>

lemma Transform_psm_removes_emptied_target:
  assumes "MergePatches h (loadedPatches p) = Inr [patch]"
    and "GetById (OrgId patch) m = Inr i"
    and "if YAMLSupport_psm p
         then (\<exists>node. GetRNode h (patch\<lparr>resName := resName (m ! i),
                  resNamespace := resNamespace (m ! i), resGvk := resGvk (m ! i)\<rparr>) = Inr node
                \<and> snd (ApplyToJSON h (smp_Filter h node) (m ! i)) = t')
         else resource_Patch h (m ! i) patch = (None, t')"
    and "GetMap t' = []"
    and "\<forall>j<length m. j \<noteq> i \<longrightarrow> CurId (m ! j) \<noteq> CurId t'"
  shows "Transform_psm h p m = (None, take i m @ drop (Suc i) m)"
proof -
  from GetById_index[OF assms(2)] have i: "i < length m" by simp
  note rm = Remove_emptied[OF i assms(5)]
  show ?thesis
  proof (cases "YAMLSupport_psm p")
    case True
    with assms(3) obtain node where
      "GetRNode h (patch\<lparr>resName := resName (m ! i),
                  resNamespace := resNamespace (m ! i), resGvk := resGvk (m ! i)\<rparr>) = Inr node"
      "snd (ApplyToJSON h (smp_Filter h node) (m ! i)) = t'"
      by auto
    with True assms(1,2,4) rm show ?thesis
      by (simp add: Transform_psm_def accessors)
  next
    case False
    with assms(1,2,3,4) rm show ?thesis
      by (simp add: Transform_psm_def accessors)
  qed
qed

text \<open>
  In the same function, under the structured-tree strategy, an error of
  \<^verbatim>\<open>filtersutil.ApplyToJSON\<close> is not returned: the pass goes on with the target as the call
  left it.
\<close>

lemma Transform_psm_drops_ApplyToJSON_error:
  assumes "YAMLSupport_psm p"
    and "MergePatches h (loadedPatches p) = Inr [patch]"
    and "GetById (OrgId patch) m = Inr i"
    and "GetRNode h (patch\<lparr>resName := resName (m ! i), resNamespace := resNamespace (m ! i),
           resGvk := resGvk (m ! i)\<rparr>) = Inr node"
    and "ApplyToJSON h (smp_Filter h node) (m ! i) = (Some e, t')"
    and "GetMap t' \<noteq> []"
  shows "Transform_psm h p m = (None, m[i := t'])"
  using assms by (simp add: Transform_psm_def accessors)

text \<open>
  C2. \<^verbatim>\<open>Transform\<close> of PatchTransformer.go never removes a resource: whatever the patch
  does, the collection has the length it had. On the concrete collection of three
  deployments, the strategic-merge patch that deletes \<open>d1\<close> leaves \<open>d1\<close> in the collection
  with no fields, where the claim wants it absent and the collection one shorter; on the
  same input \<^verbatim>\<open>Transform\<close> of PatchStrategicMergeTransformer.go, which tests
  \<^verbatim>\<open>len(target.Map()) == 0\<close> and calls \<^verbatim>\<open>m.Remove\<close>, returns the other two resources.
\<close>

theorem Transform_never_removes:
  "length (snd (Transform h p m)) = length m
   \<and> Transform ex_env (ex_plugin\<lparr>loadedPatch := Some ex_delete_patch\<rparr>) ex_resmap =
       (None, [ex_resource ''d1'' [], ex_resource ''d2'' [(''replicas'', TNum 2)],
               ex_resource ''web'' [(''replicas'', TNum 3)]])
   \<and> Transform_psm ex_env ex_plugin_psm ex_resmap =
       (None, [ex_resource ''d2'' [(''replicas'', TNum 2)],
               ex_resource ''web'' [(''replicas'', TNum 3)]])"
proof (intro conjI)
  show "length (snd (Transform h p m)) = length m"
    by (auto simp: Transform_def transformStrategicMerge_def transformJson6902_def
        transformStrategicMerge_loop_length transformJson6902_loop_length
        split: option.splits sum.splits prod.splits)
  show "Transform ex_env (ex_plugin\<lparr>loadedPatch := Some ex_delete_patch\<rparr>) ex_resmap =
       (None, [ex_resource ''d1'' [], ex_resource ''d2'' [(''replicas'', TNum 2)],
               ex_resource ''web'' [(''replicas'', TNum 3)]])"
    by (simp add: Transform_def transformStrategicMerge_def GetById_def applySMPatch_def
        accessors ex_defs)
  show "Transform_psm ex_env ex_plugin_psm ex_resmap =
       (None, [ex_resource ''d2'' [(''replicas'', TNum 2)],
               ex_resource ''web'' [(''replicas'', TNum 3)]])"
    by (simp add: Transform_psm_def GetById_def Remove_def accessors ex_defs)
qed

section \<open>Fan-out over the selected resources\<close>

text \<open>
  C3. When the plugin has a target selector, \<^verbatim>\<open>transformStrategicMerge\<close> leaves the
  collection at its length and leaves every resource the selector did not select as it
  was. Every selected resource is either as it was (the pass stopped at an error before
  reaching it) or what \<^verbatim>\<open>applySMPatch\<close> made of that resource alone and a copy of the patch
  whose name, namespace and group/version/kind are the resource's own, everything else
  being the patch's. When the pass returns no error, every selected resource is the result
  of that application.
\<close>

theorem transformStrategicMerge_fan_out:
  assumes "Target p = Some sel"
    and "transformStrategicMerge h p m patch = (err, m')"
    and "Select h sel m = Inr resources"
  shows "length m' = length m
   \<and> (\<forall>i<length m. i \<notin> set resources \<longrightarrow> m' ! i = m ! i)
   \<and> (\<forall>i\<in>set resources. m' ! i = m ! i \<or>
        (\<exists>e. applySMPatch h p (m ! i)
               (patch\<lparr>resName := resName (m ! i), resNamespace := resNamespace (m ! i),
                  resGvk := resGvk (m ! i)\<rparr>) = (e, m' ! i)))
   \<and> (err = None \<longrightarrow>
        (\<forall>i\<in>set resources. applySMPatch h p (m ! i)
               (patch\<lparr>resName := resName (m ! i), resNamespace := resNamespace (m ! i),
                  resGvk := resGvk (m ! i)\<rparr>) = (None, m' ! i)))"
proof -
  from assms have loop: "transformStrategicMerge_loop h p patch resources m = (err, m')"
    by (simp add: transformStrategicMerge_def)
  from Select_indices[OF assms(3)] have "distinct resources" "\<forall>i\<in>set resources. i < length m"
    by simp_all
  from transformStrategicMerge_loop_result[OF this loop] show ?thesis .
qed

theorem transformStrategicMerge_fan_out_witness:
  "Select ex_env ex_selector ex_resmap = Inr [0, 1]
   \<and> transformStrategicMerge ex_env (ex_plugin\<lparr>Target := Some ex_selector\<rparr>) ex_resmap
        (ex_resource ''any'' [(''replicas'', TNum 5)]) =
       (None, [ex_resource ''d1'' [(''replicas'', TNum 5)],
               ex_resource ''d2'' [(''replicas'', TNum 5)],
               ex_resource ''web'' [(''replicas'', TNum 3)]])
   \<and> applySMPatch ex_env (ex_plugin\<lparr>Target := Some ex_selector\<rparr>) (ex_resmap ! 1)
        ((ex_resource ''any'' [(''replicas'', TNum 5)])\<lparr>resName := ''d2'',
           resNamespace := ''default'', resGvk := ex_gvk\<rparr>) =
       (None, ex_resource ''d2'' [(''replicas'', TNum 5)])"
proof -
  have s: "Select ex_env ex_selector ex_resmap = Inr [0, 1]"
    by (simp add: Select_def ex_defs upt_rec)
  have t: "transformStrategicMerge ex_env (ex_plugin\<lparr>Target := Some ex_selector\<rparr>) ex_resmap
        (ex_resource ''any'' [(''replicas'', TNum 5)]) =
       (None, [ex_resource ''d1'' [(''replicas'', TNum 5)],
               ex_resource ''d2'' [(''replicas'', TNum 5)],
               ex_resource ''web'' [(''replicas'', TNum 3)]])"
  proof -
    have "transformStrategicMerge ex_env (ex_plugin\<lparr>Target := Some ex_selector\<rparr>) ex_resmap
        (ex_resource ''any'' [(''replicas'', TNum 5)]) =
       transformStrategicMerge_loop ex_env (ex_plugin\<lparr>Target := Some ex_selector\<rparr>)
        (ex_resource ''any'' [(''replicas'', TNum 5)]) [0, 1] ex_resmap"
      by (simp add: transformStrategicMerge_def s)
    also have "\<dots> = (None, [ex_resource ''d1'' [(''replicas'', TNum 5)],
               ex_resource ''d2'' [(''replicas'', TNum 5)],
               ex_resource ''web'' [(''replicas'', TNum 3)]])"
      by (simp add: applySMPatch_def accessors ex_defs)
    finally show ?thesis .
  qed
  have p: "Target (ex_plugin\<lparr>Target := Some ex_selector\<rparr>) = Some ex_selector"
    by simp
  from transformStrategicMerge_fan_out[OF p t s] s t show ?thesis
    by (simp add: ex_resmap_def ex_resource_def)
qed

section \<open>JSON patches\<close>

text \<open>
  C5. A plugin whose patch was classified as a JSON patch (\<^verbatim>\<open>loadedPatch\<close> is \<^verbatim>\<open>nil\<close>, so
  \<^verbatim>\<open>Transform\<close> takes the JSON-Patch branch) and that has no target selector fails on every
  collection with "must specify a target for patch", and returns the collection as it was.
\<close>

theorem Transform_json6902_requires_target:
  assumes "loadedPatch p = None" and "Target p = None"
  shows "Transform h p m = (Some (MustSpecifyTarget (Patch p)), m)"
  using assms by (simp add: Transform_def transformJson6902_def)

theorem Transform_json6902_requires_target_witness:
  "Transform ex_env (ex_plugin\<lparr>decodedPatch := Some ex_ops, Patch := ''[add /tier, remove /missing]''\<rparr>)
     ex_resmap = (Some (MustSpecifyTarget ''[add /tier, remove /missing]''), ex_resmap)"
  using Transform_json6902_requires_target [of
      "ex_plugin\<lparr>decodedPatch := Some ex_ops, Patch := ''[add /tier, remove /missing]''\<rparr>"
      ex_env ex_resmap]
  by (simp add: ex_plugin_def)

text \<open>
  C4. Let the resource serialize to \<open>doc\<close>, and let the operation sequence be
  \<open>pre @ x # post\<close> (the \<^verbatim>\<open>patch\<close> argument under the legacy strategy, what the filter
  decodes from \<^verbatim>\<open>p.Patch\<close> under the structured-tree strategy), where the operations \<open>pre\<close>
  succeed one after the other from \<open>doc\<close> and the operation \<open>x\<close> fails on the document they
  produce. Then \<^verbatim>\<open>applyJson6902Patch\<close> returns the error of \<open>x\<close> (wrapped in "failed to apply
  json patch" under the legacy strategy) and the resource is exactly as it was: the changes
  of \<open>pre\<close> are not written to it.
\<close>

theorem applyJson6902Patch_atomic:
  assumes "(if YAMLSupport p then GetRNode h res else MarshalJSON h res) = Inr doc"
    and "if YAMLSupport p then Filter_decodePatch h (Patch p) = Inr (pre @ x # post)
         else patch = Some (pre @ x # post)"
    and "jsonpatch_Apply h pre doc = Inr doc'"
    and "apply_op h x doc' = Inl e"
  shows "applyJson6902Patch h p res patch =
           (Some (if YAMLSupport p then e else FailedToApplyJsonPatch e (Patch p)), res)"
  using assms jsonpatch_Apply_fails[OF assms(3,4), of post]
  by (auto simp: applyJson6902Patch_def ApplyToJSON_def patchjson6902_Filter_def split: if_splits)

theorem applyJson6902Patch_atomic_witness:
  "jsonpatch_Apply ex_env [hd ex_ops] (TMap [(''replicas'', TNum 1)]) =
     Inr (TMap [(''replicas'', TNum 1), (''tier'', TStr ''web'')])
   \<and> applyJson6902Patch ex_env ex_plugin (ex_resource ''d1'' [(''replicas'', TNum 1)]) (Some ex_ops) =
     (Some (FailedToApplyJsonPatch (LibError ''missing path'') []),
      ex_resource ''d1'' [(''replicas'', TNum 1)])
   \<and> applyJson6902Patch ex_env
       (ex_plugin\<lparr>YAMLSupport := True, Patch := ''[add /tier, remove /missing]''\<rparr>)
       (ex_resource ''d1'' [(''replicas'', TNum 1)]) None =
     (Some (LibError ''missing path''), ex_resource ''d1'' [(''replicas'', TNum 1)])"
proof -
  have a: "jsonpatch_Apply ex_env [hd ex_ops] (TMap [(''replicas'', TNum 1)]) =
     Inr (TMap [(''replicas'', TNum 1), (''tier'', TStr ''web'')])"
    by (simp add: ex_env_def ex_ops_def ex_apply_op_def)
  have b: "apply_op ex_env (ex_ops ! 1) (TMap [(''replicas'', TNum 1), (''tier'', TStr ''web'')]) =
     Inl (LibError ''missing path'')"
    by (simp add: ex_env_def ex_ops_def ex_apply_op_def)
  have o: "ex_ops = [hd ex_ops] @ ex_ops ! 1 # []"
    by (simp add: ex_ops_def)
  have l: "applyJson6902Patch ex_env ex_plugin (ex_resource ''d1'' [(''replicas'', TNum 1)]) (Some ex_ops) =
     (Some (FailedToApplyJsonPatch (LibError ''missing path'') []),
      ex_resource ''d1'' [(''replicas'', TNum 1)])"
    using applyJson6902Patch_atomic [of ex_plugin ex_env "ex_resource ''d1'' [(''replicas'', TNum 1)]"
        "TMap [(''replicas'', TNum 1)]" "[hd ex_ops]" "ex_ops ! 1" "[]" "Some ex_ops"
        "TMap [(''replicas'', TNum 1), (''tier'', TStr ''web'')]" "LibError ''missing path''"]
      a b o
    by (simp add: ex_env_def ex_plugin_def ex_resource_def)
  have y: "applyJson6902Patch ex_env
       (ex_plugin\<lparr>YAMLSupport := True, Patch := ''[add /tier, remove /missing]''\<rparr>)
       (ex_resource ''d1'' [(''replicas'', TNum 1)]) None =
     (Some (LibError ''missing path''), ex_resource ''d1'' [(''replicas'', TNum 1)])"
    using applyJson6902Patch_atomic [of
        "ex_plugin\<lparr>YAMLSupport := True, Patch := ''[add /tier, remove /missing]''\<rparr>" ex_env
        "ex_resource ''d1'' [(''replicas'', TNum 1)]"
        "TMap [(''replicas'', TNum 1)]" "[hd ex_ops]" "ex_ops ! 1" "[]" None
        "TMap [(''replicas'', TNum 1), (''tier'', TStr ''web'')]" "LibError ''missing path''"]
      a b o
    by (simp add: ex_env_def ex_plugin_def ex_resource_def)
  from a l y show ?thesis by simp
qed

end
